theory Spec2Isabelle
  imports Main "HOL-Library.AList"
begin

section \<open>The hub application of jupyterhub/app.py\<close>

text \<open>
  A shallow embedding of the class \<open>JupyterHubApp\<close>: its configurable traits and
  instance attributes are one record, every method is a function that takes the
  application object and the outside world and returns them updated, together with the
  exception it raised, if any. Everything the methods do to the outside (the database
  session, the proxy subprocess, sockets, files, the log) is recorded as an event in the
  world's trace, in program order.
\<close>

subsection \<open>Exceptions\<close>

datatype error =
    TraitError string
  | RuntimeError string
  | TimeoutError
  | AttributeError string
  | OSError string
  | OtherError string

subsection \<open>Integers as text\<close>

text \<open>\<open>'%i' % n\<close> and \<open>str(n)\<close> for a Python integer: decimal digits, a minus sign first.\<close>

definition digit_char :: "nat \<Rightarrow> char" where
  "digit_char d = ''0123456789'' ! d"

fun str_nat :: "nat \<Rightarrow> string" where
  "str_nat n = (if n < 10 then [digit_char n] else str_nat (n div 10) @ [digit_char (n mod 10)])"

declare str_nat.simps [simp del]

definition str_int :: "int \<Rightarrow> string" where
  "str_int i = (if i < 0 then CHR ''-'' # str_nat (nat (- i)) else str_nat (nat i))"

subsection \<open>Strings\<close>

text \<open>\<open>s.startswith(p)\<close> and \<open>s.endswith(p)\<close>.\<close>

definition startswith :: "string \<Rightarrow> string \<Rightarrow> bool" where
  "startswith s p = (take (length p) s = p)"

definition endswith :: "string \<Rightarrow> string \<Rightarrow> bool" where
  "endswith s p = (length p \<le> length s \<and> drop (length s - length p) s = p)"

subsection \<open>Entities of the object-relational layer\<close>

text \<open>
  The classes \<open>orm.Server\<close>, \<open>orm.Hub\<close>, \<open>orm.Proxy\<close> and \<open>orm.User\<close> are
  constructed by app.py with keyword arguments; a column that the constructor call leaves
  out is \<open>None\<close>. A user's \<open>spawner\<close> is the handle of the running single-user server.
\<close>

record server =
  server_ip :: string
  server_port :: int
  server_base_url :: "string option"
  cookie_secret_of :: "string option"
  cookie_name :: "string option"

record hub =
  hub_server :: server

record proxy =
  public_server :: server
  api_server :: server
  auth_token :: string

type_synonym spawner = nat

record user =
  name :: string
  admin :: bool
  spawner :: "spawner option"

datatype entity = EUser user | EHub hub | EProxy proxy

text \<open>
  The database session: \<open>db.add\<close> puts an entity into the session, \<open>db.commit\<close>
  makes everything added so far durable.
\<close>

record db =
  added :: "entity list"
  committed :: "entity list"

subsection \<open>The outside world\<close>

datatype level = DEBUG | INFO | ERROR | CRITICAL

text \<open>What a call of \<open>server.wait_up(timeout)\<close> does: return, raise \<open>TimeoutError\<close>, or
  raise something else.\<close>

datatype probe = Up | TimedOut | Failed string

text \<open>What the future returned by \<open>spawner.stop()\<close> does when it is waited for.\<close>

datatype stop_outcome = Stopped | StopFailed string | NeverResolves

datatype event =
    ParseCommandLine
  | LoadConfig string
  | WritePid string int
  | InitLogging
  | DbCommit "entity list"
  | InitHandlers string
  | InitTornado
  | Log level string "string list"
  | Popen "string list" "(string \<times> string) list"
  | Poll "int option"
  | WaitUp server int probe
  | AddRoute user
  | PeriodicCallback int
  | Listen int
  | LoopStart
  | SpawnerStop user
  | Terminate
  | RemovePid string
  | WriteConfig string
  | Print string

text \<open>
  The world holds what app.py reads from its collaborators and the operating system, and
  the trace of what app.py did. The answers of the collaborators are scripts indexed by
  the number of the call, so a world is any behaviour of the proxy process (\<open>poll_at\<close>,
  \<open>popen_at\<close>), of the proxy's sockets (\<open>wait_at\<close>), of the token generator
  \<open>orm.new_token\<close> (\<open>token_at\<close>) and of the spawners (\<open>stop_at\<close>). \<open>server_host\<close> is
  the property \<open>orm.Server.host\<close>; \<open>ticks\<close> is how many times the IO loop fires the
  periodic proxy check before it is interrupted.
\<close>

record world =
  environ :: "(string \<times> string) list"
  getpid :: int
  files :: "string list"
  server_host :: "server \<Rightarrow> string"
  token_at :: "nat \<Rightarrow> string"
  n_tokens :: nat
  popen_at :: "nat \<Rightarrow> error + int"
  n_popens :: nat
  poll_at :: "nat \<Rightarrow> int option"
  n_polls :: nat
  wait_at :: "nat \<Rightarrow> probe"
  n_waits :: nat
  stop_at :: "spawner \<Rightarrow> stop_outcome"
  ticks :: nat
  trace :: "event list"

definition emit :: "event \<Rightarrow> world \<Rightarrow> world" where
  "emit e w = w\<lparr>trace := trace w @ [e]\<rparr>"

definition log :: "level \<Rightarrow> string \<Rightarrow> string list \<Rightarrow> world \<Rightarrow> world" where
  "log l msg args w = emit (Log l msg args) w"

subsection \<open>The application object\<close>

text \<open>
  The traits of \<open>JupyterHubApp\<close> (configuration) and its attributes. A trait with a
  dynamic default that the operator may leave unset is an \<open>option\<close>
  (\<open>proxy_auth_token\<close>, \<open>proxy_api_port\<close>). \<open>logging.DEBUG\<close> is 10.
\<close>

record app =
  config_file :: string
  generate_config :: bool
  pid_file :: string
  proxy_check_interval :: int
  ssl_key :: string
  ssl_cert :: string
  ip :: string
  port :: int
  base_url :: string
  proxy_cmd :: string
  proxy_auth_token :: "string option"
  proxy_api_ip :: string
  proxy_api_port_trait :: "int option"
  hub_port :: int
  hub_ip :: string
  hub_prefix :: string
  cookie_secret :: string
  admin_users :: "string list"
  log_level :: int
  app_db :: "db option"
  app_hub :: "hub option"
  app_proxy :: "proxy option"
  proxy_process :: "int option"
  tornado_application :: bool

definition logging_DEBUG :: int where
  "logging_DEBUG = 10"

text \<open>\<open>_proxy_api_port_default\<close>: the port after the public one, unless configured.\<close>

definition proxy_api_port :: "app \<Rightarrow> int" where
  "proxy_api_port a = (case proxy_api_port_trait a of Some p \<Rightarrow> p | None \<Rightarrow> port a + 1)"

subsection \<open>\<open>_hub_prefix_changed\<close>\<close>

text \<open>
  The value \<open>newnew\<close> that the handler computes from \<open>new\<close>. \<open>url_path_join\<close> is
  imported from jupyterhub/utils.py, which is not part of the sources at hand: it is a
  parameter.
\<close>

definition newnew_of :: "(string \<Rightarrow> string \<Rightarrow> string) \<Rightarrow> string \<Rightarrow> string \<Rightarrow> string" where
  "newnew_of url_path_join base new =
     (let newnew = new;
          newnew = (if \<not> startswith new ''/'' then ''/'' @ new else newnew);
          newnew = (if \<not> endswith newnew ''/'' then newnew @ ''/'' else newnew);
          newnew = (if \<not> startswith newnew base then url_path_join base newnew else newnew)
      in newnew)"

text \<open>
  The handler runs after the trait has taken the value \<open>new\<close>. Its assignment
  \<open>self.hub_prefix = newnew\<close> stores \<open>newnew\<close> and, the value being a different one,
  runs the handler again on it. The result is the stored prefix and the exception raised,
  if any; \<open>None\<close> is a recursion that never ends.
\<close>

definition invalid_hub_prefix :: error where
  "invalid_hub_prefix = TraitError (CHR 0x27 # ''/'' @ CHR 0x27 # '' is not a valid hub prefix'')"

partial_function (option) hub_prefix_changed ::
  "(string \<Rightarrow> string \<Rightarrow> string) \<Rightarrow> string \<Rightarrow> string \<Rightarrow> (string \<times> error option) option" where
  "hub_prefix_changed url_path_join base new =
     (if new = ''/'' then Some (new, Some invalid_hub_prefix)
      else if newnew_of url_path_join base new \<noteq> new
        then hub_prefix_changed url_path_join base (newnew_of url_path_join base new)
      else Some (new, None))"

subsection \<open>\<open>init_ports\<close>\<close>

definition init_ports :: "app \<Rightarrow> error + unit" where
  "init_ports a =
     (if hub_port a = port a then
        Inl (TraitError (''The hub and proxy cannot both listen on port '' @ str_int (port a)))
      else if hub_port a = proxy_api_port a then
        Inl (TraitError (''The hub and proxy API cannot both listen on port '' @ str_int (hub_port a)))
      else if proxy_api_port a = port a then
        Inl (TraitError (''The proxy's public and API ports cannot both be '' @ str_int (port a)))
      else Inr ())"

subsection \<open>Primitive calls\<close>

text \<open>\<open>orm.new_token()\<close>.\<close>

definition new_token :: "world \<Rightarrow> string \<times> world" where
  "new_token w = (token_at w (n_tokens w), w\<lparr>n_tokens := Suc (n_tokens w)\<rparr>)"

text \<open>\<open>Popen(cmd, env=env)\<close>: the process id of the child, or the exception of a launch
  that failed.\<close>

definition popen :: "string list \<Rightarrow> (string \<times> string) list \<Rightarrow> world \<Rightarrow> (error + int) \<times> world" where
  "popen cmd env w =
     (popen_at w (n_popens w), (emit (Popen cmd env) w)\<lparr>n_popens := Suc (n_popens w)\<rparr>)"

text \<open>\<open>self.proxy_process.poll()\<close>: \<open>None\<close> while the process runs, its exit code after.\<close>

definition poll :: "world \<Rightarrow> int option \<times> world" where
  "poll w =
     (let r = poll_at w (n_polls w)
      in (r, (emit (Poll r) w)\<lparr>n_polls := Suc (n_polls w)\<rparr>))"

text \<open>\<open>server.wait_up(timeout)\<close>.\<close>

definition wait_up :: "server \<Rightarrow> int \<Rightarrow> world \<Rightarrow> probe \<times> world" where
  "wait_up s timeout w =
     (let r = wait_at w (n_waits w)
      in (r, (emit (WaitUp s timeout r) w)\<lparr>n_waits := Suc (n_waits w)\<rparr>))"

subsection \<open>\<open>start_proxy\<close>\<close>

definition proxy_env :: "proxy \<Rightarrow> world \<Rightarrow> (string \<times> string) list" where
  "proxy_env p w = AList.update ''CONFIGPROXY_AUTH_TOKEN'' (auth_token p) (environ w)"

definition proxy_cmd_line :: "app \<Rightarrow> proxy \<Rightarrow> hub \<Rightarrow> world \<Rightarrow> string list" where
  "proxy_cmd_line a p h w =
     [proxy_cmd a,
      ''--ip'', server_ip (public_server p),
      ''--port'', str_int (server_port (public_server p)),
      ''--api-ip'', server_ip (api_server p),
      ''--api-port'', str_int (server_port (api_server p)),
      ''--default-target'', server_host w (hub_server h)]
     @ (if log_level a = logging_DEBUG then [''--log-level'', ''debug''] else [])
     @ (if ssl_key a \<noteq> [] then [''--ssl-key'', ssl_key a] else [])
     @ (if ssl_cert a \<noteq> [] then [''--ssl-cert'', ssl_cert a] else [])"

text \<open>The local function \<open>_check\<close> and the exception \<open>e\<close> it raises.\<close>

definition failed_to_start :: "int \<Rightarrow> error" where
  "failed_to_start status = RuntimeError (''Proxy failed to start with exit code '' @ str_int status)"

definition check :: "world \<Rightarrow> error option \<times> world" where
  "check w =
     (case poll w of
        (None, w1) \<Rightarrow> (None, w1)
      | (Some status, w1) \<Rightarrow> (Some (failed_to_start status), w1))"

text \<open>
  \<open>for i in range(10)\<close> with \<open>n\<close> rounds left: \<open>continue\<close> on \<open>TimeoutError\<close>,
  \<open>break\<close> when \<open>wait_up\<close> returns; any other exception leaves the loop and the method.
\<close>

fun probe_loop :: "server \<Rightarrow> nat \<Rightarrow> world \<Rightarrow> error option \<times> world" where
  "probe_loop s 0 w = (None, w)"
| "probe_loop s (Suc n) w =
     (case check w of
        (Some e, w1) \<Rightarrow> (Some e, w1)
      | (None, w1) \<Rightarrow>
          (case wait_up s 1 w1 of
             (TimedOut, w2) \<Rightarrow> probe_loop s n w2
           | (Up, w2) \<Rightarrow> (None, w2)
           | (Failed m, w2) \<Rightarrow> (Some (OtherError m), w2)))"

text \<open>The body of \<open>for server in (...)\<close>: the loop, then \<open>yield server.wait_up(1)\<close>.\<close>

definition probe_server :: "server \<Rightarrow> world \<Rightarrow> error option \<times> world" where
  "probe_server s w =
     (case probe_loop s 10 w of
        (Some e, w1) \<Rightarrow> (Some e, w1)
      | (None, w1) \<Rightarrow>
          (case wait_up s 1 w1 of
             (Up, w2) \<Rightarrow> (None, w2)
           | (TimedOut, w2) \<Rightarrow> (Some TimeoutError, w2)
           | (Failed m, w2) \<Rightarrow> (Some (OtherError m), w2)))"

fun probe_servers :: "server list \<Rightarrow> world \<Rightarrow> error option \<times> world" where
  "probe_servers [] w = (None, w)"
| "probe_servers (s # ss) w =
     (case probe_server s w of
        (Some e, w1) \<Rightarrow> (Some e, w1)
      | (None, w1) \<Rightarrow> probe_servers ss w1)"

definition start_proxy :: "app \<Rightarrow> world \<Rightarrow> error option \<times> app \<times> world" where
  "start_proxy a w =
     (case app_proxy a of
        None \<Rightarrow> (Some (AttributeError ''proxy''), a, w)
      | Some p \<Rightarrow>
     (case app_hub a of
        None \<Rightarrow> (Some (AttributeError ''hub''), a, w)
      | Some h \<Rightarrow>
          (let env = proxy_env p w;
               cmd = proxy_cmd_line a p h w;
               w1 = log INFO ''Starting proxy: %s'' cmd w
           in case popen cmd env w1 of
                (Inl e, w2) \<Rightarrow> (Some e, a, w2)
              | (Inr pid, w2) \<Rightarrow>
                  (let a1 = a\<lparr>proxy_process := Some pid\<rparr>
                   in case probe_servers [public_server p, api_server p] w2 of
                        (Some e, w3) \<Rightarrow> (Some e, a1, w3)
                      | (None, w3) \<Rightarrow>
                          (None, a1, log DEBUG ''Proxy started and appears to be up'' [] w3)))))"

subsection \<open>\<open>check_proxy\<close>\<close>

fun users_of :: "entity list \<Rightarrow> user list" where
  "users_of [] = []"
| "users_of (EUser u # es) = u # users_of es"
| "users_of (e # es) = users_of es"

text \<open>\<open>self.db.query(orm.User)\<close>.\<close>

definition query_users :: "db \<Rightarrow> user list" where
  "query_users d = users_of (committed d @ added d)"

definition users_with_backends :: "app \<Rightarrow> user list" where
  "users_with_backends a =
     (case app_db a of None \<Rightarrow> [] | Some d \<Rightarrow> filter (\<lambda>u. spawner u \<noteq> None) (query_users d))"

text \<open>
  Modelled from the spec: \<open>orm.Proxy.add_all_users\<close> is not part of the sources at hand.
  The spec has it replay the routing state "by issuing one route-add per currently-known
  user-with-backend".
\<close>

definition add_all_users :: "app \<Rightarrow> world \<Rightarrow> world" where
  "add_all_users a w = w\<lparr>trace := trace w @ map AddRoute (users_with_backends a)\<rparr>"

definition str_status :: "int option \<Rightarrow> string" where
  "str_status r = (case r of None \<Rightarrow> ''None'' | Some c \<Rightarrow> str_int c)"

definition check_proxy :: "app \<Rightarrow> world \<Rightarrow> error option \<times> app \<times> world" where
  "check_proxy a w =
     (case proxy_process a of
        None \<Rightarrow> (Some (AttributeError ''proxy_process''), a, w)
      | Some pid \<Rightarrow>
          (case poll w of
             (None, w1) \<Rightarrow> (None, a, w1)
           | (Some c, w1) \<Rightarrow>
               (case poll w1 of (r, w2) \<Rightarrow>
                  (case start_proxy a (log ERROR ''Proxy stopped with exit code %i'' [str_status r] w2) of
                     (Some e, a1, w3) \<Rightarrow> (Some e, a1, w3)
                   | (None, a1, w3) \<Rightarrow>
                       (None, a1,
                        log INFO ''New proxy back up, and good to go'' []
                          (add_all_users a1 (log INFO ''Setting up routes on new proxy'' [] w3)))))))"

subsection \<open>The initialization steps\<close>

definition write_pid_file :: "app \<Rightarrow> world \<Rightarrow> world" where
  "write_pid_file a w =
     (if pid_file a \<noteq> [] then
        (emit (WritePid (pid_file a) (getpid w))
           (log DEBUG ''Writing PID %i to %s'' [str_int (getpid w), pid_file a] w))
          \<lparr>files := List.insert (pid_file a) (files w)\<rparr>
      else w)"

definition db_add :: "entity \<Rightarrow> db \<Rightarrow> db" where
  "db_add e d = d\<lparr>added := added d @ [e]\<rparr>"

definition db_commit :: "db \<Rightarrow> world \<Rightarrow> db \<times> world" where
  "db_commit d w = (d\<lparr>added := [], committed := committed d @ added d\<rparr>, emit (DbCommit (added d)) w)"

definition init_db :: "app \<Rightarrow> world \<Rightarrow> app \<times> world" where
  "init_db a w =
     (let d = \<lparr>added = [], committed = []\<rparr>;
          d = foldl (\<lambda>d n. db_add (EUser \<lparr>name = n, admin = True, spawner = None\<rparr>) d) d (admin_users a)
      in case db_commit d w of (d', w') \<Rightarrow> (a\<lparr>app_db := Some d'\<rparr>, w'))"

definition init_hub :: "app \<Rightarrow> world \<Rightarrow> error option \<times> app \<times> world" where
  "init_hub a w =
     (let h = \<lparr>hub_server =
                 \<lparr>server_ip = hub_ip a, server_port = hub_port a,
                  server_base_url = Some (hub_prefix a),
                  cookie_secret_of = Some (cookie_secret a),
                  cookie_name = Some ''jupyter-hub-token''\<rparr>\<rparr>;
          a1 = a\<lparr>app_hub := Some h\<rparr>
      in case app_db a1 of
           None \<Rightarrow> (Some (AttributeError ''add''), a1, w)
         | Some d \<Rightarrow>
             (case db_commit (db_add (EHub h) d) w of
                (d', w') \<Rightarrow> (None, a1\<lparr>app_db := Some d'\<rparr>, w')))"

definition init_proxy :: "app \<Rightarrow> world \<Rightarrow> error option \<times> app \<times> world" where
  "init_proxy a w =
     (case new_token w of (token, w1) \<Rightarrow>
        (let p = \<lparr>public_server =
                    \<lparr>server_ip = ip a, server_port = port a, server_base_url = None,
                     cookie_secret_of = None, cookie_name = None\<rparr>,
                  api_server =
                    \<lparr>server_ip = proxy_api_ip a, server_port = proxy_api_port a,
                     server_base_url = Some ''/api/routes/'',
                     cookie_secret_of = None, cookie_name = None\<rparr>,
                  auth_token = token\<rparr>;
             a1 = a\<lparr>app_proxy := Some p\<rparr>
         in case app_db a1 of
              None \<Rightarrow> (Some (AttributeError ''add''), a1, w1)
            | Some d \<Rightarrow>
                (case db_commit (db_add (EProxy p) d) w1 of
                   (d', w') \<Rightarrow> (None, a1\<lparr>app_db := Some d'\<rparr>, w'))))"

text \<open>
  \<open>initialize\<close>. The application object \<open>a\<close> holds the traits as they are once the
  command line and the config file have been read. \<open>init_handlers\<close>,
  \<open>init_tornado_settings\<close> and \<open>init_tornado_application\<close> build the request handlers
  without opening a socket; they are one event each.
\<close>

definition initialize :: "app \<Rightarrow> world \<Rightarrow> error option \<times> app \<times> world" where
  "initialize a w =
     (let w0 = emit ParseCommandLine w
      in if generate_config a then (None, a, w0)
         else
           (let w1 = emit (LoadConfig (config_file a)) w0;
                w2 = write_pid_file a w1;
                w3 = emit InitLogging w2
            in case init_ports a of
                 Inl e \<Rightarrow> (Some e, a, w3)
               | Inr _ \<Rightarrow>
                   (case init_db a w3 of (a4, w4) \<Rightarrow>
                      (case init_hub a4 w4 of
                         (Some e, a5, w5) \<Rightarrow> (Some e, a5, w5)
                       | (None, a5, w5) \<Rightarrow>
                           (case init_proxy a5 w5 of
                              (Some e, a6, w6) \<Rightarrow> (Some e, a6, w6)
                            | (None, a6, w6) \<Rightarrow>
                                (None, a6\<lparr>tornado_application := True\<rparr>,
                                 emit InitTornado (emit (InitHandlers (hub_prefix a6)) w6)))))))"

subsection \<open>\<open>cleanup\<close>\<close>

text \<open>How a coroutine or the whole process ends: it returns, it raises, or it waits for
  ever on a future that never resolves.\<close>

datatype outcome = Returned | Raised error | Blocked

text \<open>The first loop of \<open>cleanup\<close>: the futures of the stop requests, in query order.\<close>

fun request_stops :: "user list \<Rightarrow> world \<Rightarrow> spawner list \<times> world" where
  "request_stops [] w = ([], w)"
| "request_stops (u # us) w =
     (case spawner u of
        None \<Rightarrow> request_stops us w
      | Some sp \<Rightarrow>
          (case request_stops us (emit (SpawnerStop u) w) of
             (futures, w') \<Rightarrow> (sp # futures, w')))"

text \<open>\<open>for f in futures: yield f\<close>.\<close>

fun wait_stops :: "spawner list \<Rightarrow> world \<Rightarrow> outcome" where
  "wait_stops [] w = Returned"
| "wait_stops (f # fs) w =
     (case stop_at w f of
        Stopped \<Rightarrow> wait_stops fs w
      | StopFailed m \<Rightarrow> Raised (OtherError m)
      | NeverResolves \<Rightarrow> Blocked)"

definition cleanup :: "app \<Rightarrow> world \<Rightarrow> outcome \<times> world" where
  "cleanup a w =
     (let w1 = log INFO ''Cleaning up single-user servers...'' [] w
      in case app_db a of
           None \<Rightarrow> (Raised (AttributeError ''query''), w1)
         | Some d \<Rightarrow>
        (case request_stops (query_users d) w1 of (futures, w2) \<Rightarrow>
        (case proxy_process a of
           None \<Rightarrow> (Raised (AttributeError ''proxy_process''), w2)
         | Some pid \<Rightarrow>
            (let w3 = emit Terminate (log INFO ''Cleaning up proxy[%i]...'' [str_int pid] w2)
             in case wait_stops futures w3 of
                  Returned \<Rightarrow>
                    (let w4 = (if pid_file a \<noteq> [] \<and> pid_file a \<in> set (files w3) then
                                 (emit (RemovePid (pid_file a))
                                    (log INFO ''Cleaning up PID file %s'' [pid_file a] w3))
                                   \<lparr>files := removeAll (pid_file a) (files w3)\<rparr>
                               else w3)
                     in (Returned, log INFO ''...done'' [] w4))
                | r \<Rightarrow> (r, w3)))))"

subsection \<open>\<open>start\<close> and the process\<close>

text \<open>
  The IO loop between \<open>loop.start()\<close> and its interruption, as far as app.py takes part
  in it: the periodic callback \<open>check_proxy\<close>, fired \<open>n\<close> times. An exception of the
  callback is reported by the loop and goes no further.
\<close>

fun run_loop :: "nat \<Rightarrow> app \<Rightarrow> world \<Rightarrow> app \<times> world" where
  "run_loop 0 a w = (a, w)"
| "run_loop (Suc n) a w = (case check_proxy a w of (r, a1, w1) \<Rightarrow> run_loop n a1 w1)"

definition str_error :: "error \<Rightarrow> string" where
  "str_error e =
     (case e of
        TraitError m \<Rightarrow> ''TraitError: '' @ m
      | RuntimeError m \<Rightarrow> ''RuntimeError: '' @ m
      | TimeoutError \<Rightarrow> ''TimeoutError''
      | AttributeError m \<Rightarrow> ''AttributeError: '' @ m
      | OSError m \<Rightarrow> ''OSError: '' @ m
      | OtherError m \<Rightarrow> m)"

definition start :: "app \<Rightarrow> world \<Rightarrow> outcome \<times> app \<times> world" where
  "start a w =
     (if generate_config a then (Returned, a, emit (WriteConfig (config_file a)) w)
      else
        (case start_proxy a w of
           (Some e, a1, w1) \<Rightarrow>
             (Returned, a1, log CRITICAL ''Failed to start proxy'' [str_error e] w1)
         | (None, a1, w1) \<Rightarrow>
             (let w2 = emit (PeriodicCallback (proxy_check_interval a1)) w1;
                  w3 = emit (Listen (hub_port a1)) w2
              in case run_loop (ticks w3) a1 (emit LoopStart w3) of (a4, w4) \<Rightarrow>
                   (case cleanup a4 (emit (Print ''Interrupted'') w4) of
                      (r, w5) \<Rightarrow> (r, a4, w5)))))"

text \<open>
  \<open>main = JupyterHubApp.launch_instance\<close>: \<open>initialize\<close>, then \<open>start\<close>. The decorator
  \<open>catch_config_error\<close> of \<open>initialize\<close> turns a \<open>TraitError\<close> into two fatal log lines
  and \<open>exit(1)\<close>; any other exception that leaves \<open>main\<close> ends the interpreter with
  status 1, and a \<open>main\<close> that returns ends it with status 0. \<open>None\<close> is a process that
  does not end.
\<close>

definition main :: "app \<Rightarrow> world \<Rightarrow> int option \<times> world" where
  "main a w =
     (case initialize a w of
        (Some (TraitError m), a1, w1) \<Rightarrow>
          (Some 1, log CRITICAL m []
                     (log CRITICAL ''Bad config encountered during initialization:'' [] w1))
      | (Some e, a1, w1) \<Rightarrow> (Some 1, w1)
      | (None, a1, w1) \<Rightarrow>
          (case start a1 w1 of
             (Returned, a2, w2) \<Rightarrow> (Some 0, w2)
           | (Raised e, a2, w2) \<Rightarrow> (Some 1, w2)
           | (Blocked, a2, w2) \<Rightarrow> (None, w2)))"

subsection \<open>Configurations and worlds to run the model on\<close>

text \<open>The traits at their declared defaults, before \<open>initialize\<close>; the cookie secret and
  the admin user, which the class takes from the environment, are fixed here.\<close>

definition default_app :: app where
  "default_app =
     \<lparr>config_file = ''jupyter_hub_config.py'', generate_config = False, pid_file = [],
      proxy_check_interval = 10000, ssl_key = [], ssl_cert = [], ip = [], port = 8000,
      base_url = ''/'', proxy_cmd = ''configurable-http-proxy'', proxy_auth_token = None,
      proxy_api_ip = ''localhost'', proxy_api_port_trait = None, hub_port = 8081,
      hub_ip = ''localhost'', hub_prefix = ''/hub/'', cookie_secret = ''c0ffee'',
      admin_users = [''root''], log_level = 20, app_db = None, app_hub = None,
      app_proxy = None, proxy_process = None, tornado_application = False\<rparr>"

subsection \<open>Reading traces\<close>

fun is_Popen :: "event \<Rightarrow> bool" where
  "is_Popen (Popen cmd env) = True"
| "is_Popen e = False"

fun is_Listen :: "event \<Rightarrow> bool" where
  "is_Listen (Listen n) = True"
| "is_Listen e = False"

fun is_AddRoute :: "event \<Rightarrow> bool" where
  "is_AddRoute (AddRoute u) = True"
| "is_AddRoute e = False"

text \<open>The events of probing the server \<open>s\<close>: a poll of the process, or \<open>s.wait_up(1)\<close>.\<close>

fun is_probe_of :: "server \<Rightarrow> event \<Rightarrow> bool" where
  "is_probe_of s (Poll r) = True"
| "is_probe_of s (WaitUp s' timeout r) = (s' = s \<and> timeout = 1)"
| "is_probe_of s e = False"

text \<open>\<open>k\<close> rounds of the retry loop in which the process was alive and the probe timed out.\<close>

definition timed_out_rounds :: "server \<Rightarrow> nat \<Rightarrow> event list" where
  "timed_out_rounds s k = concat (replicate k [Poll None, WaitUp s 1 TimedOut])"

text \<open>What a \<open>yield server.wait_up(1)\<close> outside any \<open>try\<close> raises.\<close>

definition raised_by :: "probe \<Rightarrow> error option" where
  "raised_by f = (case f of Up \<Rightarrow> None | TimedOut \<Rightarrow> Some TimeoutError | Failed m \<Rightarrow> Some (OtherError m))"

text \<open>How the retry loop of \<open>n\<close> rounds ends after \<open>k\<close> timed-out rounds: exhausted, the
  process found dead, the probe answered, or the probe raised.\<close>

definition loop_ends :: "server \<Rightarrow> nat \<Rightarrow> nat \<Rightarrow> event list \<Rightarrow> error option \<Rightarrow> bool" where
  "loop_ends s n k rest r \<longleftrightarrow>
     (k = n \<and> rest = [] \<and> r = None)
   \<or> (\<exists>c. k < n \<and> rest = [Poll (Some c)] \<and> r = Some (failed_to_start c))
   \<or> (k < n \<and> rest = [Poll None, WaitUp s 1 Up] \<and> r = None)
   \<or> (\<exists>m. k < n \<and> rest = [Poll None, WaitUp s 1 (Failed m)] \<and> r = Some (OtherError m))"

text \<open>A world in which everything works at once: the proxy starts and stays alive, its
  sockets answer the first probe, every spawner stops, and the loop is interrupted before
  the first periodic check.\<close>

definition calm_world :: world where
  "calm_world =
     \<lparr>environ = [(''PATH'', ''/usr/bin'')], getpid = 4242, files = [],
      server_host = (\<lambda>s. ''http://'' @ server_ip s @ '':'' @ str_int (server_port s)),
      token_at = (\<lambda>n. ''t0ken'' @ str_nat n), n_tokens = 0,
      popen_at = (\<lambda>n. Inr (5000 + int n)), n_popens = 0,
      poll_at = (\<lambda>n. None), n_polls = 0,
      wait_at = (\<lambda>n. Up), n_waits = 0,
      stop_at = (\<lambda>sp. Stopped), ticks = 0, trace = []\<rparr>"

text \<open>The default application after \<open>initialize\<close> in the calm world.\<close>

definition initialized_app :: app where
  "initialized_app = fst (snd (initialize default_app calm_world))"

definition initialized_world :: world where
  "initialized_world = snd (snd (initialize default_app calm_world))"

text \<open>The entities that \<open>initialize\<close> creates there.\<close>

definition default_hub :: hub where
  "default_hub =
     \<lparr>hub_server =
        \<lparr>server_ip = ''localhost'', server_port = 8081, server_base_url = Some ''/hub/'',
         cookie_secret_of = Some ''c0ffee'', cookie_name = Some ''jupyter-hub-token''\<rparr>\<rparr>"

definition default_public :: server where
  "default_public =
     \<lparr>server_ip = [], server_port = 8000, server_base_url = None,
      cookie_secret_of = None, cookie_name = None\<rparr>"

definition default_api :: server where
  "default_api =
     \<lparr>server_ip = ''localhost'', server_port = 8001, server_base_url = Some ''/api/routes/'',
      cookie_secret_of = None, cookie_name = None\<rparr>"

definition default_proxy :: proxy where
  "default_proxy =
     \<lparr>public_server = default_public, api_server = default_api, auth_token = ''t0ken0''\<rparr>"

definition default_cmd :: "string list" where
  "default_cmd =
     [''configurable-http-proxy'', ''--ip'', [], ''--port'', ''8000'',
      ''--api-ip'', ''localhost'', ''--api-port'', ''8001'',
      ''--default-target'', ''http://localhost:8081'']"

definition default_env :: "(string \<times> string) list" where
  "default_env = [(''PATH'', ''/usr/bin''), (''CONFIGPROXY_AUTH_TOKEN'', ''t0ken0'')]"

text \<open>Variations: the public socket answers only the eleventh probe; no socket ever
  answers; the proxy has exited with code 17 before the first probe.\<close>

definition slow_world :: world where
  "slow_world = initialized_world\<lparr>wait_at := (\<lambda>n. if n < 10 then TimedOut else Up)\<rparr>"

definition deaf_world :: world where
  "deaf_world = initialized_world\<lparr>wait_at := (\<lambda>n. TimedOut)\<rparr>"

definition crashed_world :: world where
  "crashed_world = initialized_world\<lparr>poll_at := (\<lambda>n. Some 17)\<rparr>"

subsection \<open>Describing the hub prefix\<close>

text \<open>\<open>new\<close> after the first two steps of \<open>_hub_prefix_changed\<close>: with a slash in front
  and a slash behind.\<close>

definition slashed :: "string \<Rightarrow> string" where
  "slashed new =
     (let n = (if \<not> startswith new ''/'' then ''/'' @ new else new)
      in if \<not> endswith n ''/'' then n @ ''/'' else n)"

text \<open>A prefix in normal form: it starts and ends with a slash and lies under the base URL.\<close>

definition normalized :: "string \<Rightarrow> string \<Rightarrow> bool" where
  "normalized base v \<longleftrightarrow> startswith v ''/'' \<and> endswith v ''/'' \<and> startswith v base"

text \<open>A stand-in for \<open>url_path_join\<close> on two pieces of which the first ends and the
  second starts with a slash.\<close>

definition plain_join :: "string \<Rightarrow> string \<Rightarrow> string" where
  "plain_join a b = a @ tl b"

subsection \<open>Describing the launch command\<close>

text \<open>The values that \<open>start_proxy\<close> takes from the configuration and the entities, and
  the flags it writes itself.\<close>

definition argv_values :: "app \<Rightarrow> proxy \<Rightarrow> hub \<Rightarrow> world \<Rightarrow> string list" where
  "argv_values a p h w =
     [proxy_cmd a, server_ip (public_server p), str_int (server_port (public_server p)),
      server_ip (api_server p), str_int (server_port (api_server p)),
      server_host w (hub_server h), ssl_key a, ssl_cert a]"

definition argv_flags :: "string list" where
  "argv_flags =
     [''--ip'', ''--port'', ''--api-ip'', ''--api-port'', ''--default-target'',
      ''--log-level'', ''debug'', ''--ssl-key'', ''--ssl-cert'']"

text \<open>The events that a step added to the trace.\<close>

definition new_events :: "world \<Rightarrow> world \<Rightarrow> event list" where
  "new_events w w' = drop (length (trace w)) (trace w')"

text \<open>The application once the proxy runs and three users are known, two of them with a
  running single-user server; and a world in which the proxy is found dead by the periodic
  check and comes up again.\<close>

definition alice :: user where
  "alice = \<lparr>name = ''alice'', admin = False, spawner = Some 1\<rparr>"

definition bob :: user where
  "bob = \<lparr>name = ''bob'', admin = False, spawner = None\<rparr>"

definition carol :: user where
  "carol = \<lparr>name = ''carol'', admin = False, spawner = Some 2\<rparr>"

definition dave :: user where
  "dave = \<lparr>name = ''dave'', admin = False, spawner = Some 3\<rparr>"

definition busy_db :: db where
  "busy_db =
     \<lparr>added = [],
      committed = [EHub default_hub, EProxy default_proxy, EUser alice, EUser bob, EUser carol,
        EUser dave]\<rparr>"

definition busy_app :: app where
  "busy_app = initialized_app\<lparr>app_db := Some busy_db, proxy_process := Some 5000\<rparr>"

definition restart_world :: world where
  "restart_world = initialized_world\<lparr>poll_at := (\<lambda>n. if n < 2 then Some 1 else None)\<rparr>"

text \<open>The same application with a pid file written at startup, in a world that still has
  the file; one where the second stop request never resolves, and one where it fails.\<close>

definition pid_app :: app where
  "pid_app = busy_app\<lparr>pid_file := ''/run/hub.pid''\<rparr>"

definition shutdown_world :: world where
  "shutdown_world = initialized_world\<lparr>files := [''/run/hub.pid'']\<rparr>"

definition stuck_world :: world where
  "stuck_world = shutdown_world\<lparr>stop_at := (\<lambda>sp. if sp = 2 then NeverResolves else Stopped)\<rparr>"

definition failing_world :: world where
  "failing_world =
     shutdown_world\<lparr>stop_at := (\<lambda>sp. if sp = 2 then StopFailed ''no such process'' else Stopped)\<rparr>"

subsection \<open>Describing shutdown\<close>

text \<open>The outcome of waiting for the stop requests in order: the first one that does not
  stop decides.\<close>

definition first_unstopped :: "world \<Rightarrow> spawner list \<Rightarrow> outcome" where
  "first_unstopped w futures =
     (case List.find (\<lambda>sp. stop_at w sp \<noteq> Stopped) futures of
        None \<Rightarrow> Returned
      | Some sp \<Rightarrow>
          (case stop_at w sp of
             StopFailed m \<Rightarrow> Raised (OtherError m)
           | NeverResolves \<Rightarrow> Blocked
           | Stopped \<Rightarrow> Returned))"

subsection \<open>Describing a launch\<close>

text \<open>A launch of the proxy for the entity \<open>p\<close>: the environment of the child holds the
  token of \<open>p\<close>, and the command line names its two endpoints.\<close>

fun launched_with :: "proxy \<Rightarrow> event \<Rightarrow> bool" where
  "launched_with p (Popen cmd env) =
     (map_of env ''CONFIGPROXY_AUTH_TOKEN'' = Some (auth_token p)
      \<and> take 8 (tl cmd) =
          [''--ip'', server_ip (public_server p),
           ''--port'', str_int (server_port (public_server p)),
           ''--api-ip'', server_ip (api_server p),
           ''--api-port'', str_int (server_port (api_server p))])"
| "launched_with p e = False"

text \<open>Events that neither open the hub's socket nor launch anything but the proxy of \<open>p\<close>.\<close>

definition benign :: "proxy \<Rightarrow> event list \<Rightarrow> bool" where
  "benign p evs = list_all (\<lambda>e. \<not> is_Listen e \<and> (\<not> is_Popen e \<or> launched_with p e)) evs"

text \<open>Events that neither open the hub's socket nor launch a process.\<close>

definition idle :: "event list \<Rightarrow> bool" where
  "idle evs = list_all (\<lambda>e. \<not> is_Listen e \<and> \<not> is_Popen e) evs"

section \<open>Properties\<close>

subsection \<open>Evaluating \<open>str_int\<close>\<close>

lemma str_nat_digit: "n < 10 \<Longrightarrow> str_nat n = [digit_char n]"
  by (subst str_nat.simps) simp

lemma str_nat_step: "\<not> n < 10 \<Longrightarrow> str_nat n = str_nat (n div 10) @ [digit_char (n mod 10)]"
  by (subst str_nat.simps) simp

lemmas str_eval = str_int_def str_nat_digit str_nat_step digit_char_def

subsection \<open>Running the model on the example world\<close>

lemmas init_defs = initialize_def init_ports_def init_db_def init_hub_def init_proxy_def
  db_add_def db_commit_def new_token_def write_pid_file_def emit_def log_def Let_def
  proxy_api_port_def

lemmas example_defs = default_app_def calm_world_def default_hub_def default_proxy_def
  default_public_def default_api_def default_cmd_def default_env_def

lemma initialized_app_eq:
  "initialized_app = default_app
     \<lparr>app_db := Some \<lparr>added = [], committed =
         [EUser \<lparr>name = ''root'', admin = True, spawner = None\<rparr>, EHub default_hub, EProxy default_proxy]\<rparr>,
      app_hub := Some default_hub, app_proxy := Some default_proxy, tornado_application := True\<rparr>"
  by (simp add: initialized_app_def example_defs init_defs str_eval)

lemma initialized_world_eq:
  "initialized_world = calm_world
     \<lparr>n_tokens := 1,
      trace := [ParseCommandLine, LoadConfig ''jupyter_hub_config.py'', InitLogging,
        DbCommit [EUser \<lparr>name = ''root'', admin = True, spawner = None\<rparr>],
        DbCommit [EHub default_hub], DbCommit [EProxy default_proxy],
        InitHandlers ''/hub/'', InitTornado]\<rparr>"
  by (simp add: initialized_world_def example_defs init_defs str_eval)

lemma probe_loop_numeral:
  "probe_loop s (numeral k) w =
     (case check w of
        (Some e, w1) \<Rightarrow> (Some e, w1)
      | (None, w1) \<Rightarrow>
          (case wait_up s 1 w1 of
             (TimedOut, w2) \<Rightarrow> probe_loop s (pred_numeral k) w2
           | (Up, w2) \<Rightarrow> (None, w2)
           | (Failed m, w2) \<Rightarrow> (Some (OtherError m), w2)))"
  by (simp add: numeral_eq_Suc)

lemmas start_defs = start_proxy_def probe_server_def probe_loop_numeral check_def poll_def
  wait_up_def popen_def proxy_env_def proxy_cmd_line_def logging_DEBUG_def emit_def log_def Let_def

subsection \<open>The events of the readiness probes\<close>

lemma check_cases:
  obtains (alive) w1 where "check w = (None, w1)" "trace w1 = trace w @ [Poll None]"
  | (exited) c w1 where "check w = (Some (failed_to_start c), w1)" "trace w1 = trace w @ [Poll (Some c)]"
  by (cases "poll_at w (n_polls w)") (auto simp: check_def poll_def emit_def Let_def)

lemma wait_up_cases:
  obtains r w2 where "wait_up s t w = (r, w2)" "trace w2 = trace w @ [WaitUp s t r]"
  by (simp add: wait_up_def emit_def Let_def)

lemma probe_loop_trace:
  "\<exists>k rest. k \<le> n \<and> trace (snd (probe_loop s n w)) = trace w @ timed_out_rounds s k @ rest \<and>
     loop_ends s n k rest (fst (probe_loop s n w))"
proof (induction n arbitrary: w)
  case 0
  show ?case by (rule exI [of _ 0]) (simp add: timed_out_rounds_def loop_ends_def)
next
  case (Suc n)
  show ?case
  proof (cases w rule: check_cases)
    case (exited c w1)
    then show ?thesis
      by (intro exI [of _ 0] exI [of _ "[Poll (Some c)]"])
         (simp add: timed_out_rounds_def loop_ends_def)
  next
    case (alive w1)
    obtain r w2 where w2: "wait_up s 1 w1 = (r, w2)" "trace w2 = trace w1 @ [WaitUp s 1 r]"
      by (rule wait_up_cases)
    show ?thesis
    proof (cases r)
      case Up
      then show ?thesis using alive w2
        by (intro exI [of _ 0] exI [of _ "[Poll None, WaitUp s 1 Up]"])
           (simp add: timed_out_rounds_def loop_ends_def)
    next
      case (Failed m)
      then show ?thesis using alive w2
        by (intro exI [of _ 0] exI [of _ "[Poll None, WaitUp s 1 (Failed m)]"])
           (simp add: timed_out_rounds_def loop_ends_def)
    next
      case TimedOut
      have step: "probe_loop s (Suc n) w = probe_loop s n w2"
        using alive w2 TimedOut by simp
      from Suc.IH [of w2] obtain k rest where
        k: "k \<le> n" and tr: "trace (snd (probe_loop s n w2)) = trace w2 @ timed_out_rounds s k @ rest"
        and cs: "loop_ends s n k rest (fst (probe_loop s n w2))"
        by blast
      have tr': "trace (snd (probe_loop s (Suc n) w)) = trace w @ timed_out_rounds s (Suc k) @ rest"
        using tr w2 alive TimedOut step by (simp add: timed_out_rounds_def)
      have "loop_ends s (Suc n) (Suc k) rest (fst (probe_loop s (Suc n) w))"
        using cs unfolding step loop_ends_def by auto
      with k tr' show ?thesis by blast
    qed
  qed
qed

lemma probe_server_trace:
  "\<exists>k rest. k \<le> 10 \<and> trace (snd (probe_server s w)) = trace w @ timed_out_rounds s k @ rest \<and>
      ((\<exists>c. k < 10 \<and> rest = [Poll (Some c)] \<and> fst (probe_server s w) = Some (failed_to_start c))
     \<or> (\<exists>m. k < 10 \<and> rest = [Poll None, WaitUp s 1 (Failed m)]
            \<and> fst (probe_server s w) = Some (OtherError m))
     \<or> (\<exists>f. rest = (if k < 10 then [Poll None, WaitUp s 1 Up] else []) @ [WaitUp s 1 f]
            \<and> fst (probe_server s w) = raised_by f))"
proof -
  obtain r w1 where l: "probe_loop s 10 w = (r, w1)" by (cases "probe_loop s 10 w")
  from probe_loop_trace [of 10 s w] l obtain k rest where
    k: "k \<le> 10" and tr: "trace w1 = trace w @ timed_out_rounds s k @ rest"
    and cs: "loop_ends s 10 k rest r"
    by auto
  obtain f w2 where w2: "wait_up s 1 w1 = (f, w2)" "trace w2 = trace w1 @ [WaitUp s 1 f]"
    by (rule wait_up_cases)
  show ?thesis
  proof (cases r)
    case (Some e)
    then have ps: "probe_server s w = (Some e, w1)" using l by (simp add: probe_server_def)
    from cs Some have "(\<exists>c. k < 10 \<and> rest = [Poll (Some c)] \<and> e = failed_to_start c)
        \<or> (\<exists>m. k < 10 \<and> rest = [Poll None, WaitUp s 1 (Failed m)] \<and> e = OtherError m)"
      by (auto simp: loop_ends_def)
    with k tr ps show ?thesis by (intro exI [of _ k] exI [of _ rest]) auto
  next
    case None
    then have ps: "probe_server s w = (raised_by f, w2)" using l w2
      by (cases f) (simp_all add: probe_server_def raised_by_def)
    from cs None have "(k = 10 \<and> rest = []) \<or> (k < 10 \<and> rest = [Poll None, WaitUp s 1 Up])"
      by (auto simp: loop_ends_def)
    then have "rest @ [WaitUp s 1 f] = (if k < 10 then [Poll None, WaitUp s 1 Up] else []) @ [WaitUp s 1 f]"
      by auto
    with k tr ps w2 show ?thesis
      by (intro exI [of _ k] exI [of _ "rest @ [WaitUp s 1 f]"]) auto
  qed
qed

lemma raised_by_None [simp]: "raised_by f = None \<longleftrightarrow> f = Up"
  by (cases f) (simp_all add: raised_by_def)

lemma timed_out_rounds_probes: "list_all (is_probe_of s) (timed_out_rounds s k)"
  by (induction k) (simp_all add: timed_out_rounds_def)

lemma probe_server_events:
  "\<exists>evs. trace (snd (probe_server s w)) = trace w @ evs \<and> list_all (is_probe_of s) evs
     \<and> (fst (probe_server s w) = None \<longrightarrow> evs \<noteq> [] \<and> last evs = WaitUp s 1 Up)"
proof -
  from probe_server_trace [of s w] obtain k rest where
    tr: "trace (snd (probe_server s w)) = trace w @ timed_out_rounds s k @ rest"
    and cs: "(\<exists>c. k < 10 \<and> rest = [Poll (Some c)] \<and> fst (probe_server s w) = Some (failed_to_start c))
     \<or> (\<exists>m. k < 10 \<and> rest = [Poll None, WaitUp s 1 (Failed m)]
            \<and> fst (probe_server s w) = Some (OtherError m))
     \<or> (\<exists>f. rest = (if k < 10 then [Poll None, WaitUp s 1 Up] else []) @ [WaitUp s 1 f]
            \<and> fst (probe_server s w) = raised_by f)"
    by blast
  from cs have "list_all (is_probe_of s) rest" by auto
  moreover from cs have "fst (probe_server s w) = None \<longrightarrow> rest \<noteq> [] \<and> last rest = WaitUp s 1 Up"
    by auto
  ultimately show ?thesis using tr timed_out_rounds_probes [of s k]
    by (intro exI [of _ "timed_out_rounds s k @ rest"]) auto
qed

lemma probe_servers_two:
  "\<exists>evs1 evs2. trace (snd (probe_servers [s1, s2] w)) = trace w @ evs1 @ evs2
     \<and> list_all (is_probe_of s1) evs1 \<and> list_all (is_probe_of s2) evs2
     \<and> (fst (probe_servers [s1, s2] w) = None \<longrightarrow>
          evs1 \<noteq> [] \<and> last evs1 = WaitUp s1 1 Up \<and> evs2 \<noteq> [] \<and> last evs2 = WaitUp s2 1 Up)"
proof -
  obtain r1 w1 where p1: "probe_server s1 w = (r1, w1)" by (cases "probe_server s1 w")
  from probe_server_events [of s1 w] p1 obtain evs1 where
    e1: "trace w1 = trace w @ evs1" "list_all (is_probe_of s1) evs1"
      "r1 = None \<longrightarrow> evs1 \<noteq> [] \<and> last evs1 = WaitUp s1 1 Up"
    by auto
  show ?thesis
  proof (cases r1)
    case (Some e)
    with p1 e1 show ?thesis
      by (intro exI [of _ evs1] exI [of _ "[]"]) simp
  next
    case None
    obtain r2 w2 where p2: "probe_server s2 w1 = (r2, w2)" by (cases "probe_server s2 w1")
    from probe_server_events [of s2 w1] p2 obtain evs2 where
      e2: "trace w2 = trace w1 @ evs2" "list_all (is_probe_of s2) evs2"
        "r2 = None \<longrightarrow> evs2 \<noteq> [] \<and> last evs2 = WaitUp s2 1 Up"
      by auto
    have "probe_servers [s1, s2] w = (r2, w2)"
      using p1 p2 None by (cases r2) simp_all
    with e1 e2 None show ?thesis
      by (intro exI [of _ evs1] exI [of _ evs2]) simp
  qed
qed

lemma start_proxy_trace:
  assumes "app_proxy a = Some p" and "app_hub a = Some h"
  shows "\<exists>evs1 evs2.
      trace (snd (snd (start_proxy a w))) =
        trace w @ [Log INFO ''Starting proxy: %s'' (proxy_cmd_line a p h w),
                   Popen (proxy_cmd_line a p h w) (proxy_env p w)]
          @ evs1 @ evs2
          @ (if fst (start_proxy a w) = None
             then [Log DEBUG ''Proxy started and appears to be up'' []] else [])
    \<and> list_all (is_probe_of (public_server p)) evs1
    \<and> list_all (is_probe_of (api_server p)) evs2
    \<and> (fst (start_proxy a w) = None \<longrightarrow>
          evs1 \<noteq> [] \<and> last evs1 = WaitUp (public_server p) 1 Up
        \<and> evs2 \<noteq> [] \<and> last evs2 = WaitUp (api_server p) 1 Up)"
proof -
  let ?cmd = "proxy_cmd_line a p h w" and ?env = "proxy_env p w"
  obtain r w2 where po: "popen ?cmd ?env (log INFO ''Starting proxy: %s'' ?cmd w) = (r, w2)"
    and t2: "trace w2 = trace w @ [Log INFO ''Starting proxy: %s'' ?cmd, Popen ?cmd ?env]"
    by (simp add: popen_def log_def emit_def)
  show ?thesis
  proof (cases r)
    case (Inl e)
    then have "start_proxy a w = (Some e, a, w2)"
      using assms po by (simp add: start_proxy_def Let_def)
    with t2 show ?thesis
      by (intro exI [of _ "[]"]) simp
  next
    case (Inr pid)
    obtain r3 w3 where ps: "probe_servers [public_server p, api_server p] w2 = (r3, w3)"
      by (cases "probe_servers [public_server p, api_server p] w2")
    from probe_servers_two [of "public_server p" "api_server p" w2] ps obtain evs1 evs2 where
      e: "trace w3 = trace w2 @ evs1 @ evs2"
        "list_all (is_probe_of (public_server p)) evs1" "list_all (is_probe_of (api_server p)) evs2"
        "r3 = None \<longrightarrow> evs1 \<noteq> [] \<and> last evs1 = WaitUp (public_server p) 1 Up
           \<and> evs2 \<noteq> [] \<and> last evs2 = WaitUp (api_server p) 1 Up"
      by auto
    have sp: "start_proxy a w =
        (r3, a\<lparr>proxy_process := Some pid\<rparr>,
         if r3 = None then log DEBUG ''Proxy started and appears to be up'' [] w3 else w3)"
      using assms po Inr ps by (cases r3) (simp_all add: start_proxy_def Let_def)
    show ?thesis
      using e t2 unfolding sp
      by (intro exI [of _ evs1] exI [of _ evs2]) (simp add: log_def emit_def)
  qed
qed

lemma start_proxy_needs_entities:
  "fst (start_proxy a w) = None \<Longrightarrow> \<exists>p h. app_proxy a = Some p \<and> app_hub a = Some h"
  by (auto simp: start_proxy_def split: option.splits)

lemmas world_defs = slow_world_def deaf_world_def crashed_world_def initialized_world_eq

lemma probes_no_Popen: "list_all (is_probe_of s) evs \<Longrightarrow> filter is_Popen evs = []"
proof (induction evs)
  case Nil
  show ?case by simp
next
  case (Cons e evs)
  then show ?case by (cases e) simp_all
qed

subsection \<open>Slashes\<close>

lemma startswith_slash: "startswith s ''/'' \<longleftrightarrow> s \<noteq> [] \<and> hd s = CHR ''/''"
  by (cases s) (auto simp: startswith_def)

lemma endswith_slash: "endswith s ''/'' \<longleftrightarrow> s \<noteq> [] \<and> last s = CHR ''/''"
proof (cases s rule: rev_cases)
  case Nil
  then show ?thesis by (simp add: endswith_def)
next
  case (snoc xs x)
  then show ?thesis by (auto simp: endswith_def)
qed

lemma slashed_slashes: "startswith (slashed new) ''/'' \<and> endswith (slashed new) ''/''"
  by (auto simp: slashed_def Let_def startswith_slash endswith_slash)

lemma slashed_id: "startswith v ''/'' \<Longrightarrow> endswith v ''/'' \<Longrightarrow> slashed v = v"
  by (simp add: slashed_def)

lemma newnew_of_slashed:
  "newnew_of j base new =
     (if \<not> startswith (slashed new) base then j base (slashed new) else slashed new)"
  by (simp add: newnew_of_def slashed_def Let_def)

lemma newnew_of_normalized: "normalized base v \<Longrightarrow> newnew_of j base v = v"
  by (simp add: newnew_of_slashed normalized_def slashed_id)

lemma hub_prefix_root: "hub_prefix_changed j base ''/'' = Some (''/'', Some invalid_hub_prefix)"
  by (subst hub_prefix_changed.simps) simp

lemma hub_prefix_fixed:
  "newnew_of j base v = v \<Longrightarrow> v \<noteq> ''/'' \<Longrightarrow> hub_prefix_changed j base v = Some (v, None)"
  by (subst hub_prefix_changed.simps) simp

lemma hub_prefix_step:
  "newnew_of j base v \<noteq> v \<Longrightarrow> v \<noteq> ''/'' \<Longrightarrow>
     hub_prefix_changed j base v = hub_prefix_changed j base (newnew_of j base v)"
  by (subst hub_prefix_changed.simps) simp

subsection \<open>The events of a restart and of shutdown\<close>

lemma probe_event_kind: "is_probe_of s e \<Longrightarrow> \<not> is_Popen e \<and> \<not> is_Listen e \<and> \<not> is_AddRoute e"
  by (cases e) simp_all

lemma probes_no_AddRoute: "list_all (is_probe_of s) evs \<Longrightarrow> filter is_AddRoute evs = []"
  by (auto simp: list_all_iff filter_empty_conv dest: probe_event_kind)

lemma probes_no_Listen: "list_all (is_probe_of s) evs \<Longrightarrow> filter is_Listen evs = []"
  by (auto simp: list_all_iff filter_empty_conv dest: probe_event_kind)

lemma start_proxy_app:
  "\<exists>x. fst (snd (start_proxy a w)) = a\<lparr>proxy_process := x\<rparr>"
proof -
  have same: "a = a\<lparr>proxy_process := proxy_process a\<rparr>" by simp
  show ?thesis
  proof (cases "app_proxy a")
    case None
    then have "fst (snd (start_proxy a w)) = a" by (simp add: start_proxy_def)
    with same show ?thesis by metis
  next
    case p: (Some p)
    show ?thesis
    proof (cases "app_hub a")
      case None
      with p have "fst (snd (start_proxy a w)) = a" by (simp add: start_proxy_def)
      with same show ?thesis by metis
    next
      case h: (Some h)
      obtain r w2 where po: "popen (proxy_cmd_line a p h w) (proxy_env p w)
          (log INFO ''Starting proxy: %s'' (proxy_cmd_line a p h w) w) = (r, w2)"
        by (cases "popen (proxy_cmd_line a p h w) (proxy_env p w)
          (log INFO ''Starting proxy: %s'' (proxy_cmd_line a p h w) w)")
      show ?thesis
      proof (cases r)
        case (Inl e)
        with p h po have "fst (snd (start_proxy a w)) = a"
          by (simp add: start_proxy_def Let_def)
        with same show ?thesis by metis
      next
        case (Inr pid)
        obtain r3 w3 where "probe_servers [public_server p, api_server p] w2 = (r3, w3)"
          by (cases "probe_servers [public_server p, api_server p] w2")
        with p h po Inr have "fst (snd (start_proxy a w)) = a\<lparr>proxy_process := Some pid\<rparr>"
          by (cases r3) (simp_all add: start_proxy_def Let_def)
        then show ?thesis by blast
      qed
    qed
  qed
qed

lemma users_with_backends_process [simp]:
  "users_with_backends (a\<lparr>proxy_process := x\<rparr>) = users_with_backends a"
  by (simp add: users_with_backends_def)

lemma proxy_cmd_line_world:
  "server_host w' = server_host w \<Longrightarrow> proxy_cmd_line a p h w' = proxy_cmd_line a p h w"
  by (simp add: proxy_cmd_line_def)

lemma proxy_env_world: "environ w' = environ w \<Longrightarrow> proxy_env p w' = proxy_env p w"
  by (simp add: proxy_env_def)

lemma busy_app_eq:
  "busy_app = default_app
     \<lparr>app_db := Some busy_db,
      app_hub := Some default_hub, app_proxy := Some default_proxy,
      proxy_process := Some 5000, tornado_application := True\<rparr>"
  by (simp add: busy_app_def initialized_app_eq default_app_def)

lemmas check_defs = check_proxy_def add_all_users_def users_with_backends_def query_users_def
  str_status_def new_events_def

lemma request_stops_eq:
  "request_stops us w =
     (List.map_filter spawner us,
      w\<lparr>trace := trace w @ map SpawnerStop (filter (\<lambda>u. spawner u \<noteq> None) us)\<rparr>)"
proof (induction us arbitrary: w)
  case Nil
  show ?case by (simp add: List.map_filter_simps)
next
  case (Cons u us)
  show ?case
  proof (cases "spawner u")
    case None
    with Cons show ?thesis by (simp add: List.map_filter_simps)
  next
    case (Some sp)
    with Cons show ?thesis by (simp add: List.map_filter_simps emit_def)
  qed
qed

lemma wait_stops_eq: "wait_stops futures w = first_unstopped w futures"
proof (induction futures)
  case Nil
  show ?case by (simp add: first_unstopped_def)
next
  case (Cons f fs)
  then show ?case by (cases "stop_at w f") (simp_all add: first_unstopped_def)
qed

lemma pid_app_eq:
  "pid_app = default_app
     \<lparr>pid_file := ''/run/hub.pid'',
      app_db := Some busy_db,
      app_hub := Some default_hub, app_proxy := Some default_proxy,
      proxy_process := Some 5000, tornado_application := True\<rparr>"
  by (simp add: pid_app_def busy_app_eq default_app_def)

lemmas cleanup_defs = cleanup_def query_users_def new_events_def log_def emit_def Let_def
  shutdown_world_def stuck_world_def failing_world_def initialized_world_eq calm_world_def
  busy_db_def alice_def bob_def carol_def dave_def

subsection \<open>Port validation\<close>

text \<open>
  C5. Whenever two of the three ports (hub, proxy public, proxy API) are equal,
  \<open>init_ports\<close> raises a \<open>TraitError\<close> whose message names two roles that do collide
  (the first colliding pair in the order hub/public, hub/API, public/API), and
  \<open>initialize\<close> stops there with the application object untouched and no process
  launched; for three distinct ports \<open>init_ports\<close> returns, and being a function of the
  application object alone it changes nothing.
\<close>

theorem init_ports_validates:
  "(hub_port a = port a \<longrightarrow>
      init_ports a = Inl (TraitError (''The hub and proxy cannot both listen on port '' @ str_int (port a))))
 \<and> (hub_port a \<noteq> port a \<and> hub_port a = proxy_api_port a \<longrightarrow>
      init_ports a = Inl (TraitError (''The hub and proxy API cannot both listen on port '' @ str_int (hub_port a))))
 \<and> (hub_port a \<noteq> port a \<and> hub_port a \<noteq> proxy_api_port a \<and> proxy_api_port a = port a \<longrightarrow>
      init_ports a = Inl (TraitError (''The proxy's public and API ports cannot both be '' @ str_int (port a))))
 \<and> (distinct [hub_port a, port a, proxy_api_port a] \<longrightarrow> init_ports a = Inr ())
 \<and> (\<not> generate_config a \<and> \<not> distinct [hub_port a, port a, proxy_api_port a] \<longrightarrow>
      (\<exists>m. fst (initialize a w) = Some (TraitError m))
      \<and> fst (snd (initialize a w)) = a
      \<and> filter is_Popen (trace (snd (snd (initialize a w)))) = filter is_Popen (trace w))"
proof -
  have "\<not> generate_config a \<Longrightarrow> init_ports a = Inl (TraitError m) \<Longrightarrow>
      fst (initialize a w) = Some (TraitError m) \<and> fst (snd (initialize a w)) = a
      \<and> filter is_Popen (trace (snd (snd (initialize a w)))) = filter is_Popen (trace w)" for m
    by (simp add: initialize_def Let_def write_pid_file_def emit_def log_def)
  moreover have "\<not> distinct [hub_port a, port a, proxy_api_port a] \<Longrightarrow> \<exists>m. init_ports a = Inl (TraitError m)"
    by (auto simp: init_ports_def)
  ultimately show ?thesis
    by (auto simp: init_ports_def)
qed

theorem init_ports_validates_witness:
  "init_ports (default_app\<lparr>hub_port := 8000\<rparr>) =
     Inl (TraitError ''The hub and proxy cannot both listen on port 8000'')
 \<and> init_ports (default_app\<lparr>hub_port := 8001\<rparr>) =
     Inl (TraitError ''The hub and proxy API cannot both listen on port 8001'')
 \<and> init_ports (default_app\<lparr>proxy_api_port_trait := Some 8000\<rparr>) =
     Inl (TraitError ''The proxy's public and API ports cannot both be 8000'')
 \<and> init_ports default_app = Inr ()"
  using init_ports_validates [of "default_app\<lparr>hub_port := 8000\<rparr>"]
    init_ports_validates [of "default_app\<lparr>hub_port := 8001\<rparr>"]
    init_ports_validates [of "default_app\<lparr>proxy_api_port_trait := Some 8000\<rparr>"]
    init_ports_validates [of default_app]
  by (simp add: default_app_def proxy_api_port_def str_eval)

subsection \<open>Readiness probing\<close>

text \<open>
  C1. For each endpoint \<open>s\<close>, the events of the loop body of \<open>start_proxy\<close> are \<open>k\<close>
  rounds (at most 10) of a liveness check followed by a \<open>wait_up(1)\<close> that timed out
  and was retried, and then one of: the process found dead (the launch error), a probe
  that raised something else, or, when the loop broke out on an answer (\<open>k < 10\<close>) or
  exhausted its ten rounds (\<open>k = 10\<close>), one more \<open>wait_up(1)\<close> that no liveness check
  precedes and whose \<open>TimeoutError\<close> is what the body raises. When \<open>start_proxy\<close>
  returns without an exception, its trace after the launch is the probes of the public
  server, ending with an accepted connection, followed by the probes of the API server,
  ending with an accepted connection.
\<close>

theorem start_proxy_probing:
  "(\<exists>k rest. k \<le> 10 \<and> trace (snd (probe_server s w)) = trace w @ timed_out_rounds s k @ rest \<and>
      ((\<exists>c. k < 10 \<and> rest = [Poll (Some c)] \<and> fst (probe_server s w) = Some (failed_to_start c))
     \<or> (\<exists>m. k < 10 \<and> rest = [Poll None, WaitUp s 1 (Failed m)]
            \<and> fst (probe_server s w) = Some (OtherError m))
     \<or> (\<exists>f. rest = (if k < 10 then [Poll None, WaitUp s 1 Up] else []) @ [WaitUp s 1 f]
            \<and> fst (probe_server s w) = raised_by f)))
 \<and> raised_by Up = None \<and> raised_by TimedOut = Some TimeoutError
 \<and> (fst (start_proxy a w0) = None \<longrightarrow>
      (\<exists>p h evs1 evs2. app_proxy a = Some p \<and> app_hub a = Some h
        \<and> trace (snd (snd (start_proxy a w0))) =
            trace w0 @ [Log INFO ''Starting proxy: %s'' (proxy_cmd_line a p h w0),
                        Popen (proxy_cmd_line a p h w0) (proxy_env p w0)]
              @ evs1 @ [WaitUp (public_server p) 1 Up]
              @ evs2 @ [WaitUp (api_server p) 1 Up,
                        Log DEBUG ''Proxy started and appears to be up'' []]
        \<and> list_all (is_probe_of (public_server p)) evs1
        \<and> list_all (is_probe_of (api_server p)) evs2))"
proof (intro conjI impI)
  show "\<exists>k rest. k \<le> 10 \<and> trace (snd (probe_server s w)) = trace w @ timed_out_rounds s k @ rest \<and>
      ((\<exists>c. k < 10 \<and> rest = [Poll (Some c)] \<and> fst (probe_server s w) = Some (failed_to_start c))
     \<or> (\<exists>m. k < 10 \<and> rest = [Poll None, WaitUp s 1 (Failed m)]
            \<and> fst (probe_server s w) = Some (OtherError m))
     \<or> (\<exists>f. rest = (if k < 10 then [Poll None, WaitUp s 1 Up] else []) @ [WaitUp s 1 f]
            \<and> fst (probe_server s w) = raised_by f))"
    by (rule probe_server_trace)
  show "raised_by Up = None" and "raised_by TimedOut = Some TimeoutError"
    by (simp_all add: raised_by_def)
next
  assume ok: "fst (start_proxy a w0) = None"
  then obtain p h where ph: "app_proxy a = Some p" "app_hub a = Some h"
    using start_proxy_needs_entities by blast
  from start_proxy_trace [OF ph, of w0] ok obtain evs1 evs2 where
    tr: "trace (snd (snd (start_proxy a w0))) =
        trace w0 @ [Log INFO ''Starting proxy: %s'' (proxy_cmd_line a p h w0),
                   Popen (proxy_cmd_line a p h w0) (proxy_env p w0)]
          @ evs1 @ evs2 @ [Log DEBUG ''Proxy started and appears to be up'' []]"
    and pr: "list_all (is_probe_of (public_server p)) evs1" "list_all (is_probe_of (api_server p)) evs2"
    and l1: "evs1 \<noteq> []" "last evs1 = WaitUp (public_server p) 1 Up"
    and l2: "evs2 \<noteq> []" "last evs2 = WaitUp (api_server p) 1 Up"
    by auto
  from l1 have s1: "evs1 = butlast evs1 @ [WaitUp (public_server p) 1 Up]"
    by (metis append_butlast_last_id)
  from l2 have s2: "evs2 = butlast evs2 @ [WaitUp (api_server p) 1 Up]"
    by (metis append_butlast_last_id)
  have b1: "list_all (is_probe_of (public_server p)) (butlast evs1)"
    using pr(1) by (auto simp: list_all_iff dest: in_set_butlastD)
  have b2: "list_all (is_probe_of (api_server p)) (butlast evs2)"
    using pr(2) by (auto simp: list_all_iff dest: in_set_butlastD)
  have "trace (snd (snd (start_proxy a w0))) =
        trace w0 @ [Log INFO ''Starting proxy: %s'' (proxy_cmd_line a p h w0),
                   Popen (proxy_cmd_line a p h w0) (proxy_env p w0)]
          @ butlast evs1 @ [WaitUp (public_server p) 1 Up]
          @ butlast evs2 @ [WaitUp (api_server p) 1 Up,
              Log DEBUG ''Proxy started and appears to be up'' []]"
    by (subst tr, subst s1, subst s2) simp
  with ph b1 b2 show "\<exists>p h evs1 evs2. app_proxy a = Some p \<and> app_hub a = Some h
        \<and> trace (snd (snd (start_proxy a w0))) =
            trace w0 @ [Log INFO ''Starting proxy: %s'' (proxy_cmd_line a p h w0),
                        Popen (proxy_cmd_line a p h w0) (proxy_env p w0)]
              @ evs1 @ [WaitUp (public_server p) 1 Up]
              @ evs2 @ [WaitUp (api_server p) 1 Up,
                        Log DEBUG ''Proxy started and appears to be up'' []]
        \<and> list_all (is_probe_of (public_server p)) evs1
        \<and> list_all (is_probe_of (api_server p)) evs2"
    by blast
qed

theorem start_proxy_probing_witness:
  "fst (start_proxy initialized_app slow_world) = None
 \<and> (\<exists>p h evs1 evs2. app_proxy initialized_app = Some p \<and> app_hub initialized_app = Some h
        \<and> trace (snd (snd (start_proxy initialized_app slow_world))) =
            trace slow_world @ [Log INFO ''Starting proxy: %s'' (proxy_cmd_line initialized_app p h slow_world),
                        Popen (proxy_cmd_line initialized_app p h slow_world) (proxy_env p slow_world)]
              @ evs1 @ [WaitUp (public_server p) 1 Up]
              @ evs2 @ [WaitUp (api_server p) 1 Up,
                        Log DEBUG ''Proxy started and appears to be up'' []]
        \<and> list_all (is_probe_of (public_server p)) evs1
        \<and> list_all (is_probe_of (api_server p)) evs2)
 \<and> fst (probe_server default_public deaf_world) = Some TimeoutError
 \<and> trace (snd (probe_server default_public deaf_world)) =
      trace deaf_world @ timed_out_rounds default_public 10 @ [WaitUp default_public 1 TimedOut]"
proof -
  have ok: "fst (start_proxy initialized_app slow_world) = None"
    by (simp add: initialized_app_eq world_defs example_defs start_defs str_eval)
  have deaf: "fst (probe_server default_public deaf_world) = Some TimeoutError"
    "trace (snd (probe_server default_public deaf_world)) =
      trace deaf_world @ timed_out_rounds default_public 10 @ [WaitUp default_public 1 TimedOut]"
    by (simp_all add: world_defs example_defs start_defs timed_out_rounds_def eval_nat_numeral)
  from start_proxy_probing [of default_public deaf_world initialized_app slow_world] ok deaf
  show ?thesis by blast
qed

text \<open>
  C6. At the start of any round of the retry loop, a proxy process that has exited with
  code \<open>c\<close> ends the loop at once with the error "Proxy failed to start with exit code
  c": the poll is the last event and no \<open>wait_up\<close> is called. In particular a process
  that has exited before the first round makes \<open>start_proxy\<close> raise that error with
  no probe at all; for code 17 the message ends in 17.
\<close>

theorem exited_proxy_is_fatal:
  "(poll_at w (n_polls w) = Some c \<longrightarrow>
      fst (probe_loop s (Suc n) w) = Some (failed_to_start c)
    \<and> trace (snd (probe_loop s (Suc n) w)) = trace w @ [Poll (Some c)]
    \<and> n_waits (snd (probe_loop s (Suc n) w)) = n_waits w)
 \<and> (app_proxy a = Some p \<and> app_hub a = Some h \<and> popen_at w0 (n_popens w0) = Inr pid
      \<and> poll_at w0 (n_polls w0) = Some c \<longrightarrow>
      fst (start_proxy a w0) = Some (failed_to_start c)
    \<and> trace (snd (snd (start_proxy a w0))) =
        trace w0 @ [Log INFO ''Starting proxy: %s'' (proxy_cmd_line a p h w0),
                    Popen (proxy_cmd_line a p h w0) (proxy_env p w0), Poll (Some c)]
    \<and> n_waits (snd (snd (start_proxy a w0))) = n_waits w0)
 \<and> failed_to_start 17 = RuntimeError ''Proxy failed to start with exit code 17''"
proof (intro conjI impI)
  assume "poll_at w (n_polls w) = Some c"
  then have "probe_loop s (Suc n) w =
      (Some (failed_to_start c), (emit (Poll (Some c)) w)\<lparr>n_polls := Suc (n_polls w)\<rparr>)"
    by (simp add: check_def poll_def Let_def)
  then show "fst (probe_loop s (Suc n) w) = Some (failed_to_start c)"
    and "trace (snd (probe_loop s (Suc n) w)) = trace w @ [Poll (Some c)]"
    and "n_waits (snd (probe_loop s (Suc n) w)) = n_waits w"
    by (simp_all add: emit_def)
next
  show "failed_to_start 17 = RuntimeError ''Proxy failed to start with exit code 17''"
    by (simp add: failed_to_start_def str_eval)
next
  assume h: "app_proxy a = Some p \<and> app_hub a = Some h \<and> popen_at w0 (n_popens w0) = Inr pid
      \<and> poll_at w0 (n_polls w0) = Some c"
  let ?cmd = "proxy_cmd_line a p h w0" and ?env = "proxy_env p w0"
  obtain w2 where po: "popen ?cmd ?env (log INFO ''Starting proxy: %s'' ?cmd w0) = (Inr pid, w2)"
    and w2: "poll_at w2 (n_polls w2) = Some c" "n_waits w2 = n_waits w0"
      "trace w2 = trace w0 @ [Log INFO ''Starting proxy: %s'' ?cmd, Popen ?cmd ?env]"
    using h by (simp add: popen_def log_def emit_def)
  have pl: "probe_loop (public_server p) 10 w2 =
      (Some (failed_to_start c), (emit (Poll (Some c)) w2)\<lparr>n_polls := Suc (n_polls w2)\<rparr>)"
    using w2(1) by (simp add: probe_loop_numeral check_def poll_def Let_def)
  have sp: "start_proxy a w0 =
      (Some (failed_to_start c), a\<lparr>proxy_process := Some pid\<rparr>,
       (emit (Poll (Some c)) w2)\<lparr>n_polls := Suc (n_polls w2)\<rparr>)"
    using h po pl by (simp add: start_proxy_def probe_server_def Let_def)
  show "fst (start_proxy a w0) = Some (failed_to_start c)"
    and "trace (snd (snd (start_proxy a w0))) =
        trace w0 @ [Log INFO ''Starting proxy: %s'' ?cmd, Popen ?cmd ?env, Poll (Some c)]"
    and "n_waits (snd (snd (start_proxy a w0))) = n_waits w0"
    unfolding sp using w2 by (simp_all add: emit_def)
qed

theorem exited_proxy_is_fatal_witness:
  "fst (start_proxy initialized_app crashed_world) =
     Some (RuntimeError ''Proxy failed to start with exit code 17'')
 \<and> trace (snd (snd (start_proxy initialized_app crashed_world))) =
     trace crashed_world @ [Log INFO ''Starting proxy: %s'' default_cmd,
        Popen default_cmd default_env, Poll (Some 17)]
 \<and> n_waits (snd (snd (start_proxy initialized_app crashed_world))) = n_waits crashed_world"
  using exited_proxy_is_fatal [of crashed_world 17 default_public 9 initialized_app default_proxy
      default_hub crashed_world 5000]
  by (simp add: initialized_app_eq world_defs example_defs proxy_cmd_line_def proxy_env_def
      logging_DEBUG_def str_eval)

subsection \<open>The launch command and the token\<close>

text \<open>
  C9. \<open>start_proxy\<close> puts the auth token of the Proxy entity into the environment of
  the child, under \<open>CONFIGPROXY_AUTH_TOKEN\<close>, and builds the command line without
  reading the token: a Proxy with any other token gives the same command line, so every
  element of the command is a configured value (the proxy command, the addresses and
  ports, the hub's host, the TLS paths) or a flag, and a token that is none of these is
  not among the arguments, at any log level and with or without TLS paths. The one
  process that \<open>start_proxy\<close> launches gets exactly this command and environment.
\<close>

theorem token_only_in_environment:
  "map_of (proxy_env p w) ''CONFIGPROXY_AUTH_TOKEN'' = Some (auth_token p)
 \<and> proxy_cmd_line a (p\<lparr>auth_token := t\<rparr>) h w = proxy_cmd_line a p h w
 \<and> (auth_token p \<notin> set (argv_values a p h w) \<and> auth_token p \<notin> set argv_flags \<longrightarrow>
      auth_token p \<notin> set (proxy_cmd_line a p h w))
 \<and> (app_proxy a = Some p \<and> app_hub a = Some h \<longrightarrow>
      filter is_Popen (new_events w (snd (snd (start_proxy a w)))) =
        [Popen (proxy_cmd_line a p h w) (proxy_env p w)])"
proof (intro conjI impI)
  show "map_of (proxy_env p w) ''CONFIGPROXY_AUTH_TOKEN'' = Some (auth_token p)"
    by (simp add: proxy_env_def update_conv')
  show "proxy_cmd_line a (p\<lparr>auth_token := t\<rparr>) h w = proxy_cmd_line a p h w"
    by (simp add: proxy_cmd_line_def)
next
  assume "auth_token p \<notin> set (argv_values a p h w) \<and> auth_token p \<notin> set argv_flags"
  then show "auth_token p \<notin> set (proxy_cmd_line a p h w)"
    by (simp add: argv_values_def argv_flags_def proxy_cmd_line_def)
next
  assume ph: "app_proxy a = Some p \<and> app_hub a = Some h"
  then obtain evs1 evs2 where
    tr: "trace (snd (snd (start_proxy a w))) =
        trace w @ [Log INFO ''Starting proxy: %s'' (proxy_cmd_line a p h w),
                   Popen (proxy_cmd_line a p h w) (proxy_env p w)]
          @ evs1 @ evs2
          @ (if fst (start_proxy a w) = None
             then [Log DEBUG ''Proxy started and appears to be up'' []] else [])"
    and pr: "list_all (is_probe_of (public_server p)) evs1"
      "list_all (is_probe_of (api_server p)) evs2"
    using start_proxy_trace [of a p h w] by blast
  show "filter is_Popen (new_events w (snd (snd (start_proxy a w)))) =
        [Popen (proxy_cmd_line a p h w) (proxy_env p w)]"
    unfolding new_events_def tr using probes_no_Popen [OF pr(1)] probes_no_Popen [OF pr(2)]
    by simp
qed

theorem token_only_in_environment_witness:
  "map_of (proxy_env default_proxy initialized_world) ''CONFIGPROXY_AUTH_TOKEN'' = Some ''t0ken0''
 \<and> ''t0ken0'' \<notin> set (proxy_cmd_line initialized_app default_proxy default_hub initialized_world)
 \<and> filter is_Popen (new_events initialized_world (snd (snd (start_proxy initialized_app initialized_world)))) =
      [Popen default_cmd default_env]"
  using token_only_in_environment [of default_proxy initialized_world initialized_app
      "''t0ken0''" default_hub]
  by (simp add: initialized_app_eq initialized_world_eq example_defs proxy_cmd_line_def
      proxy_env_def argv_values_def argv_flags_def logging_DEBUG_def str_eval)

subsection \<open>The token of the Proxy entity\<close>

text \<open>
  C4, on the code: \<open>init_proxy\<close> draws the token of the Proxy entity from
  \<open>orm.new_token()\<close> whatever the trait \<open>proxy_auth_token\<close> holds. With the operator's
  token \<open>operator-secret\<close> configured and a generator whose first token is \<open>t0ken0\<close>,
  the Proxy carries \<open>t0ken0\<close>.
\<close>

theorem configured_token_is_ignored:
  "map_option auth_token
     (app_proxy (fst (snd (init_proxy
        (default_app\<lparr>proxy_auth_token := Some ''operator-secret'',
                      app_db := Some \<lparr>added = [], committed = []\<rparr>\<rparr>) calm_world))))
   = Some ''t0ken0''"
  by (simp add: example_defs init_defs str_eval)

subsection \<open>The hub prefix\<close>

text \<open>
  C10. Assigning \<open>/\<close> raises the \<open>TraitError\<close>. A value in normal form (it starts and
  ends with a slash and lies under the base URL) other than \<open>/\<close> is kept as it is, so
  assigning it again changes nothing. After the assignment of any other value the
  handler returns, and the stored prefix starts and ends with a slash: it is the value
  with the missing slashes added, joined under the base URL if it did not start with it;
  it is stored without an error unless it is \<open>/\<close> itself, which the handler refuses on
  its second run. This is proved for every \<open>url_path_join\<close> that, when it is called,
  returns a path in normal form under the base URL.
\<close>

theorem hub_prefix_normalization:
  "hub_prefix_changed j base ''/'' = Some (''/'', Some invalid_hub_prefix)
 \<and> (normalized base v \<and> v \<noteq> ''/'' \<longrightarrow> hub_prefix_changed j base v = Some (v, None))
 \<and> (new \<noteq> ''/''
      \<and> (\<not> startswith (slashed new) base \<longrightarrow> normalized base (j base (slashed new))) \<longrightarrow>
      (\<exists>stored e. hub_prefix_changed j base new = Some (stored, e)
         \<and> startswith stored ''/'' \<and> endswith stored ''/''
         \<and> ((e = None \<and> stored = newnew_of j base new \<and> normalized base stored \<and> stored \<noteq> ''/'')
            \<or> (e = Some invalid_hub_prefix \<and> stored = ''/'' \<and> newnew_of j base new = ''/''))))"
proof (intro conjI impI)
  show "hub_prefix_changed j base ''/'' = Some (''/'', Some invalid_hub_prefix)"
    by (rule hub_prefix_root)
next
  assume "normalized base v \<and> v \<noteq> ''/''"
  then show "hub_prefix_changed j base v = Some (v, None)"
    by (simp add: hub_prefix_fixed newnew_of_normalized)
next
  assume h: "new \<noteq> ''/''
      \<and> (\<not> startswith (slashed new) base \<longrightarrow> normalized base (j base (slashed new)))"
  let ?n = "newnew_of j base new"
  have n: "normalized base ?n"
    using h slashed_slashes [of new] by (auto simp: newnew_of_slashed normalized_def)
  then have fixed: "newnew_of j base ?n = ?n"
    by (rule newnew_of_normalized)
  have sl: "startswith ?n ''/''" "endswith ?n ''/''"
    using n by (simp_all add: normalized_def)
  show "\<exists>stored e. hub_prefix_changed j base new = Some (stored, e)
         \<and> startswith stored ''/'' \<and> endswith stored ''/''
         \<and> ((e = None \<and> stored = ?n \<and> normalized base stored \<and> stored \<noteq> ''/'')
            \<or> (e = Some invalid_hub_prefix \<and> stored = ''/'' \<and> ?n = ''/''))"
  proof (cases "?n = new")
    case True
    with h have "hub_prefix_changed j base new = Some (?n, None)"
      by (simp add: hub_prefix_fixed)
    with n sl h True show ?thesis by auto
  next
    case False
    with h have step: "hub_prefix_changed j base new = hub_prefix_changed j base ?n"
      by (simp add: hub_prefix_step)
    show ?thesis
    proof (cases "?n = ''/''")
      case True
      then have "hub_prefix_changed j base new = Some (''/'', Some invalid_hub_prefix)"
        using step hub_prefix_root by simp
      with True sl show ?thesis by auto
    next
      case False
      with fixed have "hub_prefix_changed j base ?n = Some (?n, None)"
        by (rule hub_prefix_fixed)
      with step n sl False show ?thesis by simp
    qed
  qed
qed

theorem hub_prefix_normalization_witness:
  "hub_prefix_changed plain_join ''/base/'' ''hub'' = Some (''/base/hub/'', None)
 \<and> hub_prefix_changed plain_join ''/base/'' ''/base/hub/'' = Some (''/base/hub/'', None)
 \<and> hub_prefix_changed plain_join ''/'' ''hub'' = Some (''/hub/'', None)
 \<and> hub_prefix_changed plain_join ''/'' '''' = Some (''/'', Some invalid_hub_prefix)"
  using hub_prefix_normalization [of plain_join "''/base/''" "''/base/hub/''" "''hub''"]
    hub_prefix_normalization [of plain_join "''/''" "''/hub/''" "''hub''"]
    hub_prefix_normalization [of plain_join "''/''" "''/hub/''" "''''"]
  by (auto simp: newnew_of_def startswith_def endswith_def slashed_def normalized_def
      plain_join_def Let_def)

subsection \<open>The periodic proxy check\<close>

text \<open>
  C7. A call of \<open>check_proxy\<close> that finds the proxy process alive does nothing but that
  poll: it returns, the application object is unchanged, and the poll is its only event,
  so there is no restart and no route is added. A call that finds the process exited
  polls it once more for the log line and then runs \<open>start_proxy\<close> once: among its
  events there is exactly one launch, with the command line and the environment built
  from the same Proxy entity (its token and endpoints), and no route-add. Only when
  \<open>start_proxy\<close> has returned without an exception do the route-adds follow, one per
  user with a backend in query order; when it raised, the exception leaves
  \<open>check_proxy\<close> and no route is added. The Proxy entity of the application is the
  same after the call.
\<close>

theorem watchdog_tick:
  "(proxy_process a = Some pid \<and> poll_at w (n_polls w) = None \<longrightarrow>
      fst (check_proxy a w) = None \<and> fst (snd (check_proxy a w)) = a
    \<and> new_events w (snd (snd (check_proxy a w))) = [Poll None])
 \<and> (proxy_process a = Some pid \<and> app_proxy a = Some p \<and> app_hub a = Some h
      \<and> poll_at w (n_polls w) = Some c \<longrightarrow>
      (\<exists>r evs. new_events w (snd (snd (check_proxy a w))) =
          [Poll (Some c), Poll r, Log ERROR ''Proxy stopped with exit code %i'' [str_status r]]
          @ evs
          @ (if fst (check_proxy a w) = None
             then Log INFO ''Setting up routes on new proxy'' []
                  # map AddRoute (users_with_backends a)
                  @ [Log INFO ''New proxy back up, and good to go'' []]
             else [])
        \<and> filter is_Popen evs = [Popen (proxy_cmd_line a p h w) (proxy_env p w)]
        \<and> filter is_AddRoute evs = []
        \<and> app_proxy (fst (snd (check_proxy a w))) = Some p))"
proof (intro conjI impI)
  assume "proxy_process a = Some pid \<and> poll_at w (n_polls w) = None"
  then have "check_proxy a w = (None, a, (emit (Poll None) w)\<lparr>n_polls := Suc (n_polls w)\<rparr>)"
    by (simp add: check_proxy_def poll_def Let_def)
  then show "fst (check_proxy a w) = None" and "fst (snd (check_proxy a w)) = a"
    and "new_events w (snd (snd (check_proxy a w))) = [Poll None]"
    by (simp_all add: new_events_def emit_def)
next
  assume h: "proxy_process a = Some pid \<and> app_proxy a = Some p \<and> app_hub a = Some h
      \<and> poll_at w (n_polls w) = Some c"
  let ?cmd = "proxy_cmd_line a p h w" and ?env = "proxy_env p w"
  obtain w1 where p1: "poll w = (Some c, w1)"
    and w1: "trace w1 = trace w @ [Poll (Some c)]" "server_host w1 = server_host w"
      "environ w1 = environ w"
    using h by (simp add: poll_def emit_def Let_def)
  obtain r w2 where p2: "poll w1 = (r, w2)"
    and w2: "trace w2 = trace w1 @ [Poll r]" "server_host w2 = server_host w1"
      "environ w2 = environ w1"
    by (simp add: poll_def emit_def Let_def)
  define w3 where "w3 = log ERROR ''Proxy stopped with exit code %i'' [str_status r] w2"
  have w3: "trace w3 = trace w @ [Poll (Some c), Poll r,
        Log ERROR ''Proxy stopped with exit code %i'' [str_status r]]"
    "server_host w3 = server_host w" "environ w3 = environ w"
    using w1 w2 by (simp_all add: w3_def log_def emit_def)
  obtain rs a1 w4 where sp: "start_proxy a w3 = (rs, a1, w4)"
    by (cases "start_proxy a w3")
  from h have ph: "app_proxy a = Some p" "app_hub a = Some h" by simp_all
  from start_proxy_trace [OF ph, of w3] sp obtain evs1 evs2 where
    t4: "trace w4 = trace w3 @ [Log INFO ''Starting proxy: %s'' ?cmd, Popen ?cmd ?env]
          @ evs1 @ evs2
          @ (if rs = None then [Log DEBUG ''Proxy started and appears to be up'' []] else [])"
    and pr: "list_all (is_probe_of (public_server p)) evs1"
      "list_all (is_probe_of (api_server p)) evs2"
    using proxy_cmd_line_world [OF w3(2)] proxy_env_world [OF w3(3)] by auto
  define evs where "evs = [Log INFO ''Starting proxy: %s'' ?cmd, Popen ?cmd ?env]
          @ evs1 @ evs2
          @ (if rs = None then [Log DEBUG ''Proxy started and appears to be up'' []] else [])"
  have popens: "filter is_Popen evs = [Popen ?cmd ?env]"
    using probes_no_Popen [OF pr(1)] probes_no_Popen [OF pr(2)] by (simp add: evs_def)
  have routes: "filter is_AddRoute evs = []"
    using probes_no_AddRoute [OF pr(1)] probes_no_AddRoute [OF pr(2)] by (simp add: evs_def)
  from start_proxy_app [of a w3] sp obtain x where a1: "a1 = a\<lparr>proxy_process := x\<rparr>"
    by auto
  have cp: "check_proxy a w =
      (rs, a1,
       if rs = None
       then log INFO ''New proxy back up, and good to go'' []
              (add_all_users a1 (log INFO ''Setting up routes on new proxy'' [] w4))
       else w4)"
    using h p1 p2 sp by (cases rs) (simp_all add: check_proxy_def w3_def)
  have "new_events w (snd (snd (check_proxy a w))) =
          [Poll (Some c), Poll r, Log ERROR ''Proxy stopped with exit code %i'' [str_status r]]
          @ evs
          @ (if fst (check_proxy a w) = None
             then Log INFO ''Setting up routes on new proxy'' []
                  # map AddRoute (users_with_backends a)
                  @ [Log INFO ''New proxy back up, and good to go'' []]
             else [])"
    unfolding cp using t4 w3(1) a1
    by (simp add: new_events_def evs_def log_def emit_def add_all_users_def)
  moreover have "app_proxy (fst (snd (check_proxy a w))) = Some p"
    unfolding cp using a1 ph by simp
  ultimately show "\<exists>r evs. new_events w (snd (snd (check_proxy a w))) =
          [Poll (Some c), Poll r, Log ERROR ''Proxy stopped with exit code %i'' [str_status r]]
          @ evs
          @ (if fst (check_proxy a w) = None
             then Log INFO ''Setting up routes on new proxy'' []
                  # map AddRoute (users_with_backends a)
                  @ [Log INFO ''New proxy back up, and good to go'' []]
             else [])
        \<and> filter is_Popen evs = [Popen (proxy_cmd_line a p h w) (proxy_env p w)]
        \<and> filter is_AddRoute evs = []
        \<and> app_proxy (fst (snd (check_proxy a w))) = Some p"
    using popens routes by blast
qed

theorem watchdog_tick_witness:
  "fst (check_proxy busy_app initialized_world) = None
 \<and> new_events initialized_world (snd (snd (check_proxy busy_app initialized_world))) = [Poll None]
 \<and> fst (check_proxy busy_app restart_world) = None
 \<and> new_events restart_world (snd (snd (check_proxy busy_app restart_world))) =
      [Poll (Some 1), Poll (Some 1), Log ERROR ''Proxy stopped with exit code %i'' [''1''],
       Log INFO ''Starting proxy: %s'' default_cmd, Popen default_cmd default_env,
       Poll None, WaitUp default_public 1 Up, WaitUp default_public 1 Up,
       Poll None, WaitUp default_api 1 Up, WaitUp default_api 1 Up,
       Log DEBUG ''Proxy started and appears to be up'' [],
       Log INFO ''Setting up routes on new proxy'' [],
       AddRoute alice, AddRoute carol, AddRoute dave,
       Log INFO ''New proxy back up, and good to go'' []]"
  using watchdog_tick [of busy_app 5000 initialized_world default_proxy default_hub 1]
    watchdog_tick [of busy_app 5000 restart_world default_proxy default_hub 1]
  by (simp add: busy_app_eq restart_world_def initialized_world_eq example_defs check_defs
      start_defs busy_db_def alice_def bob_def carol_def dave_def str_eval)

subsection \<open>Shutdown\<close>

text \<open>
  C2 as stated fails on the code: \<open>cleanup\<close> waits for the stop requests with a plain
  \<open>yield\<close> each. With three users holding a spawner and a pid file written at startup,
  a second stop request that never resolves leaves \<open>cleanup\<close> waiting for ever, and one
  that fails raises its exception out of \<open>cleanup\<close>; in both runs the pid file is
  still there afterwards.
\<close>

theorem cleanup_stuck_stop_counterexample:
  "fst (cleanup pid_app stuck_world) = Blocked
 \<and> ''/run/hub.pid'' \<in> set (files (snd (cleanup pid_app stuck_world)))
 \<and> fst (cleanup pid_app failing_world) = Raised (OtherError ''no such process'')
 \<and> ''/run/hub.pid'' \<in> set (files (snd (cleanup pid_app failing_world)))"
  by (simp add: pid_app_eq cleanup_defs)

text \<open>
  C2, amended. \<open>cleanup\<close> requests a stop from every user that has a spawner, in query
  order, then terminates the proxy, and only then waits for the stop requests one after
  the other; so the proxy is terminated whatever the stops do. The outcome of \<open>cleanup\<close>
  is that of the first request that does not stop: if there is none, the pid file is
  removed (when one is configured and exists) and \<open>cleanup\<close> returns; if that request
  fails, its exception is raised to the caller; if it never resolves, \<open>cleanup\<close> never
  returns; in both of these cases nothing happens after the termination of the proxy and
  the pid file stays.
\<close>

theorem cleanup_outcome:
  "app_db a = Some d \<and> proxy_process a = Some pid \<longrightarrow>
     fst (cleanup a w) = first_unstopped w (List.map_filter spawner (query_users d))
   \<and> new_events w (snd (cleanup a w)) =
       [Log INFO ''Cleaning up single-user servers...'' []]
       @ map SpawnerStop (filter (\<lambda>u. spawner u \<noteq> None) (query_users d))
       @ [Log INFO ''Cleaning up proxy[%i]...'' [str_int pid], Terminate]
       @ (if fst (cleanup a w) = Returned
          then (if pid_file a \<noteq> [] \<and> pid_file a \<in> set (files w)
                then [Log INFO ''Cleaning up PID file %s'' [pid_file a], RemovePid (pid_file a)]
                else [])
               @ [Log INFO ''...done'' []]
          else [])
   \<and> files (snd (cleanup a w)) =
       (if fst (cleanup a w) = Returned \<and> pid_file a \<noteq> []
        then removeAll (pid_file a) (files w) else files w)"
proof
  assume h: "app_db a = Some d \<and> proxy_process a = Some pid"
  define w3 where "w3 = emit Terminate (log INFO ''Cleaning up proxy[%i]...'' [str_int pid]
      (snd (request_stops (query_users d) (log INFO ''Cleaning up single-user servers...'' [] w))))"
  have w3: "trace w3 = trace w @ [Log INFO ''Cleaning up single-user servers...'' []]
       @ map SpawnerStop (filter (\<lambda>u. spawner u \<noteq> None) (query_users d))
       @ [Log INFO ''Cleaning up proxy[%i]...'' [str_int pid], Terminate]"
    "files w3 = files w" "stop_at w3 = stop_at w"
    by (simp_all add: w3_def request_stops_eq log_def emit_def)
  define r where "r = first_unstopped w (List.map_filter spawner (query_users d))"
  have r: "wait_stops (List.map_filter spawner (query_users d)) w3 = r"
    unfolding wait_stops_eq r_def first_unstopped_def w3(3) by (rule refl)
  define w4 where "w4 = (if pid_file a \<noteq> [] \<and> pid_file a \<in> set (files w3) then
                                 (emit (RemovePid (pid_file a))
                                    (log INFO ''Cleaning up PID file %s'' [pid_file a] w3))
                                   \<lparr>files := removeAll (pid_file a) (files w3)\<rparr>
                               else w3)"
  have cl: "cleanup a w = (r, if r = Returned then log INFO ''...done'' [] w4 else w3)"
    using h r by (cases r) (simp_all add: cleanup_def request_stops_eq w3_def w4_def Let_def)
  show "fst (cleanup a w) = first_unstopped w (List.map_filter spawner (query_users d))
   \<and> new_events w (snd (cleanup a w)) =
       [Log INFO ''Cleaning up single-user servers...'' []]
       @ map SpawnerStop (filter (\<lambda>u. spawner u \<noteq> None) (query_users d))
       @ [Log INFO ''Cleaning up proxy[%i]...'' [str_int pid], Terminate]
       @ (if fst (cleanup a w) = Returned
          then (if pid_file a \<noteq> [] \<and> pid_file a \<in> set (files w)
                then [Log INFO ''Cleaning up PID file %s'' [pid_file a], RemovePid (pid_file a)]
                else [])
               @ [Log INFO ''...done'' []]
          else [])
   \<and> files (snd (cleanup a w)) =
       (if fst (cleanup a w) = Returned \<and> pid_file a \<noteq> []
        then removeAll (pid_file a) (files w) else files w)"
    unfolding cl using w3 by (simp add: r_def [symmetric] w4_def new_events_def log_def emit_def)
qed

theorem cleanup_outcome_witness:
  "fst (cleanup pid_app shutdown_world) = Returned
 \<and> new_events shutdown_world (snd (cleanup pid_app shutdown_world)) =
      [Log INFO ''Cleaning up single-user servers...'' [],
       SpawnerStop alice, SpawnerStop carol, SpawnerStop dave,
       Log INFO ''Cleaning up proxy[%i]...'' [''5000''], Terminate,
       Log INFO ''Cleaning up PID file %s'' [''/run/hub.pid''], RemovePid ''/run/hub.pid'',
       Log INFO ''...done'' []]
 \<and> files (snd (cleanup pid_app shutdown_world)) = []
 \<and> fst (cleanup pid_app stuck_world) = Blocked
 \<and> new_events stuck_world (snd (cleanup pid_app stuck_world)) =
      [Log INFO ''Cleaning up single-user servers...'' [],
       SpawnerStop alice, SpawnerStop carol, SpawnerStop dave,
       Log INFO ''Cleaning up proxy[%i]...'' [''5000''], Terminate]"
  using cleanup_outcome [of pid_app busy_db 5000 shutdown_world]
    cleanup_outcome [of pid_app busy_db 5000 stuck_world]
  by (simp add: pid_app_eq cleanup_defs first_unstopped_def List.map_filter_simps str_eval)

end
